theory Spec2Isabelle
  imports Complex_Main
begin

section \<open>Data model of the operator console\<close>

text \<open>
  The console (component \<open>TurtleBotInterface\<close> of \<open>AMRDeveloperInterface.jsx\<close>) keeps its
  state in React state cells and refs. A JavaScript number is modelled as a \<open>real\<close>: the
  arithmetic of the source is the arithmetic of the reals here, so rounding of binary floating
  point, infinities and NaN are outside the model. Wall-clock readings (\<open>Date.now()\<close>,
  \<open>toLocaleTimeString()\<close>) are the milliseconds of the model's clock.
\<close>

record vec2 =
  vx :: real
  vy :: real

record pose =
  pose_x :: real
  pose_y :: real
  pose_theta :: real

text \<open>
  A JavaScript string that the code inspects is the list of its UTF-16 code units.
\<close>

type_synonym jsstring = "nat list"

text \<open>
  \<open>drawMap\<close> is a \<open>useCallback\<close> closure: each render makes a \<open>drawMap\<close> that reads the pose,
  goal, zoom and pan offset of that render, whenever it is called later. A \<open>render\<close> holds
  those four values. (The closure also holds the stations, the waypoints and the patrol
  state, which only the parts of the painting left out of the scene below read.)
\<close>

record render =
  seen_currentPose :: pose
  seen_goalPose :: "vec2 option"
  seen_mapZoom :: real
  seen_mapOffset :: vec2

text \<open>
  What \<open>drawMap\<close> paints of the robot and the goal: the robot's circle centre and the end of
  its heading ray when the robot passes the culling test, and the goal's circle centre when a
  goal is set. The cells, stations and waypoint path it paints before them are not part of
  the scene.
\<close>

record scene =
  scene_robot :: "(vec2 \<times> vec2) option"
  scene_goal :: "vec2 option"

text \<open>The \<open>type\<close> field of a log entry.\<close>

datatype severity = LogInfo | LogSuccess | LogWarning | LogError

text \<open>
  The log messages of the source are string literals and templates; each constructor stands
  for one of them, with the interpolated values as arguments.
\<close>

datatype log_text =
    MsgStartup                \<comment> \<open>initial entry of the console\<close>
  | MsgMonitorStartup         \<comment> \<open>initial entry of the monitor page\<close>
  | MsgRoslibLoaded           \<comment> \<open>mount: library present\<close>
  | MsgRoslibMissing          \<comment> \<open>mount: library absent, mock mode\<close>
  | MsgBootTimeout            \<comment> \<open>mount path: 10 s timeout\<close>
  | MsgBootError              \<comment> \<open>mount path: error event\<close>
  | MsgBootClosed             \<comment> \<open>mount path: close event\<close>
  | MsgTrying string          \<comment> \<open>initROS: trying to connect to the url\<close>
  | MsgWsTestTimeout          \<comment> \<open>initROS: plain WebSocket test timed out\<close>
  | MsgWsTestOk               \<comment> \<open>initROS: plain WebSocket test succeeded\<close>
  | MsgWsTestError            \<comment> \<open>initROS: plain WebSocket test failed\<close>
  | MsgRosTimeout             \<comment> \<open>attemptROSConnection: 15 s timeout\<close>
  | MsgRosConnected           \<comment> \<open>connection event, either path\<close>
  | MsgRosError               \<comment> \<open>attemptROSConnection: error event\<close>
  | MsgRosClosed              \<comment> \<open>attemptROSConnection: close event\<close>
  | MsgRosConfirmed           \<comment> \<open>attemptROSConnection: 5 s check found the link up\<close>
  | MsgSubscribingMap         \<comment> \<open>setupRosTopics: subscribing to /map\<close>
  | MsgTopicsReady            \<comment> \<open>setupRosTopics: topics set up\<close>
  | MsgMapUpdated nat nat     \<comment> \<open>map handler: map updated, width x height\<close>
  | MsgConnectFirst           \<comment> \<open>moveRobot: please connect first\<close>
  | MsgMoveCommand real real  \<comment> \<open>moveRobot: linear and angular speed sent\<close>
  | MsgRobotStopped           \<comment> \<open>stopRobot\<close>
  | MsgNewStation jsstring    \<comment> \<open>handleMapClick: station added\<close>
  | MsgNewWaypoint nat        \<comment> \<open>handleMapClick: waypoint added, its order\<close>
  | MsgGoalSet real real      \<comment> \<open>handleMapClick: navigation goal set\<close>

text \<open>
  A log entry \<open>{time, type, message}\<close>; the copy broadcast through \<open>localStorage\<close> also
  carries \<open>timestamp: Date.now()\<close>.
\<close>

record log_entry =
  log_time :: nat
  log_type :: severity
  log_message :: log_text
  log_timestamp :: "nat option"

text \<open>The values given to \<open>setRobotStatus\<close>.\<close>

datatype status =
    StNotConnected      \<comment> \<open>initial value\<close>
  | StConnecting        \<comment> \<open>initROS entered\<close>
  | StWsTestFailed      \<comment> \<open>plain WebSocket test timed out\<close>
  | StWsConnFailed      \<comment> \<open>plain WebSocket test reported an error\<close>
  | StEstablishing      \<comment> \<open>attemptROSConnection entered\<close>
  | StRosTimeout        \<comment> \<open>attemptROSConnection: 15 s timeout\<close>
  | StBootTimeout       \<comment> \<open>mount path: 10 s timeout\<close>
  | StConnected         \<comment> \<open>connection event, either path\<close>
  | StRosError          \<comment> \<open>attemptROSConnection: error event\<close>
  | StBootError         \<comment> \<open>mount path: error event\<close>
  | StDisconnected      \<comment> \<open>close event, either path\<close>

datatype mode = Teleop | Mapping | Waypoints | Navigation

datatype station_type = Charging | Work

record station =
  station_id :: nat
  station_name :: jsstring
  station_x :: real
  station_y :: real
  station_kind :: station_type

record waypoint =
  wp_id :: nat
  wp_x :: real
  wp_y :: real
  wp_order :: nat

text \<open>
  An occupancy-grid message \<open>{info: {width, height, resolution, origin: {position}}, data}\<close>.
  A message whose \<open>data\<close> is missing has \<open>data = None\<close>.
\<close>

record map_info =
  width :: nat
  height :: nat
  resolution :: real
  origin :: vec2

record map_message =
  info :: map_info
  data :: "int list option"

text \<open>
  An odometry message: \<open>pose.pose.position\<close>, \<open>pose.pose.orientation.{z,w}\<close>,
  \<open>twist.twist.linear.x\<close> and \<open>twist.twist.angular.z\<close>.
\<close>

record odom_message =
  position :: vec2
  orientation_z :: real
  orientation_w :: real
  twist_linear_x :: real
  twist_angular_z :: real

text \<open>The velocity command \<open>{linear: {x, 0, 0}, angular: {0, 0, z}}\<close>.\<close>

record twist =
  linear_x :: real
  angular_z :: real

datatype topic_name = CmdVel | Odom | MapTopic

text \<open>A \<open>ROSLIB.Topic\<close> object: its name and the index of the \<open>Ros\<close> instance it uses.\<close>

record topic =
  topic_name :: topic_name
  topic_ros :: nat

text \<open>
  A \<open>ROSLIB.Ros\<close> instance. \<open>via\<close> tells which function created it and so which handlers
  are registered on it; \<open>timeoutId\<close> is the timer its handlers clear; \<open>closure\<close> is the render
  whose \<open>setupRosTopics\<close>, and through it whose \<open>drawMap\<close>, those handlers call.
\<close>

datatype origin_path = Boot | Manual

record ros =
  isConnected :: bool
  via :: origin_path
  timeoutId :: nat
  closure :: render

text \<open>
  The plain \<open>WebSocket\<close> of \<open>initROS\<close>: the timer its handlers clear, whether it is still
  connecting (it can open or fail only then), and the render of the click that made it, whose
  \<open>attemptROSConnection\<close> its \<open>onopen\<close> calls.
\<close>

record test_socket =
  ws_timeout :: nat
  ws_connecting :: bool
  ws_closure :: render

text \<open>The callbacks given to \<open>setTimeout\<close>.\<close>

datatype timer_action =
    BootTimeout               \<comment> \<open>initAndSetupROS, 10000 ms\<close>
  | TestTimeout nat           \<comment> \<open>initROS, 5000 ms, for the test socket of that index\<close>
  | RosTimeout                \<comment> \<open>attemptROSConnection, 15000 ms\<close>
  | SetupTopics nat           \<comment> \<open>connection handlers: setupRosTopics(rosInstance)\<close>
  | ManualCheck nat           \<comment> \<open>attemptROSConnection, 5000 ms: the isConnected check\<close>
  | DrawMap render map_message  \<comment> \<open>drawMap(message), the drawMap of that render\<close>

record timer =
  timer_id :: nat
  timer_due :: nat
  timer_action :: timer_action

text \<open>
  The state of the console: the React state cells, the refs, the flag of the mount effect,
  and the environment the code acts on (clock, pending timers, the \<open>Ros\<close> instances, the
  test sockets of \<open>initROS\<close>, the subscriptions registered on the
  transport, the battery intervals started, the messages published, the \<open>amr_log_broadcast\<close>
  key of \<open>localStorage\<close>, and the canvas: its layout size, its \<open>width\<close>/\<open>height\<close> and the scene
  last painted on it).
\<close>

record console =
  rosConnected :: bool
  robotStatus :: status
  rosUrl :: string
  currentPose :: pose
  linearVel :: real
  angularVel :: real
  speed :: real
  angularSpeed :: real
  currentMode :: mode
  mapData :: "map_message option"
  stations :: "station list"
  waypoints :: "waypoint list"
  goalPose :: "vec2 option"
  isPatrolling :: bool
  mapZoom :: real
  mapOffset :: vec2
  isDragging :: bool
  lastMousePos :: vec2
  newStationName :: jsstring
  logs :: "log_entry list"
  cmdVelRef :: "topic option"
  odomSubRef :: "topic option"
  mapSubRef :: "topic option"
  rosRef :: "nat option"
  connectionAttempted :: bool
  clock :: nat
  timers :: "timer list"
  nextTimerId :: nat
  instances :: "ros list"
  testSockets :: "test_socket list"
  subscriptions :: "topic list"
  batteryIntervals :: "nat list"
  published :: "(topic \<times> twist) list"
  logBroadcast :: "log_entry option"
  canvasClient :: vec2
  canvasSize :: vec2
  painted :: "scene option"

section \<open>Logging\<close>

text \<open>\<open>xs.slice(-n)\<close>: the last \<open>n\<close> elements, all of them when there are fewer.\<close>

definition slice_last :: "nat \<Rightarrow> 'a list \<Rightarrow> 'a list" where
  "slice_last n xs = drop (length xs - n) xs"

text \<open>
  \<open>addLog\<close>: \<open>setLogs(prev => [...prev.slice(-9), {time, type, message}])\<close>, then the entry
  with a timestamp is written to \<open>amr_log_broadcast\<close>.
\<close>

definition addLog :: "severity \<Rightarrow> log_text \<Rightarrow> console \<Rightarrow> console" where
  "addLog ty msg s =
     s\<lparr>logs := slice_last 9 (logs s) @
                [\<lparr>log_time = clock s, log_type = ty, log_message = msg, log_timestamp = None\<rparr>],
       logBroadcast :=
         Some \<lparr>log_time = clock s, log_type = ty, log_message = msg,
               log_timestamp = Some (clock s)\<rparr>\<rparr>"

subsection \<open>The monitor page\<close>

text \<open>
  The robot-state snapshot mirrored through \<open>amr_robot_state\<close>, and the state of
  \<open>AMRMonitorPage\<close>.
\<close>

record robot_state =
  rs_pose :: pose
  rs_battery :: real
  rs_status :: status
  rs_linear :: real
  rs_angular :: real
  rs_connected :: bool
  rs_timestamp :: nat

record monitor =
  mon_robotState :: robot_state
  mon_logs :: "log_entry list"

text \<open>
  A \<open>storage\<close> event, by key. The payload is \<open>None\<close> when \<open>e.newValue\<close> is null or does not
  parse (the handler's \<open>catch\<close> then leaves the state as it is). For \<open>amr_logs_state\<close> the
  inner option is the \<open>logs\<close> field of the parsed object, which may be missing.
\<close>

datatype storage_event =
    RobotStateKey "robot_state option"
  | LogsStateKey "log_entry list option option"
  | LogBroadcastKey "log_entry option"
  | OtherKey

fun handleStorageChange :: "storage_event \<Rightarrow> monitor \<Rightarrow> monitor" where
  "handleStorageChange (RobotStateKey (Some st)) m = m\<lparr>mon_robotState := st\<rparr>"
| "handleStorageChange (LogsStateKey (Some ls)) m =
     m\<lparr>mon_logs := (case ls of Some l \<Rightarrow> l | None \<Rightarrow> [])\<rparr>"
| "handleStorageChange (LogBroadcastKey (Some e)) m =
     m\<lparr>mon_logs := slice_last 9 (mon_logs m) @ [e]\<rparr>"
| "handleStorageChange _ m = m"

section \<open>Numbers\<close>

text \<open>
  \<open>v.toFixed(d)\<close>: the decimal with \<open>d\<close> digits after the point nearest to \<open>v\<close>, a tie
  going away from zero. The source keeps the string or reads it back with \<open>parseFloat\<close>; the
  model keeps the number the string denotes.
\<close>

definition toFixed :: "nat \<Rightarrow> real \<Rightarrow> real" where
  "toFixed d v = sgn v * real_of_int \<lfloor>\<bar>v\<bar> * 10 ^ d + 1 / 2\<rfloor> / 10 ^ d"

text \<open>\<open>Math.atan2(y, x)\<close>: the angle of the point \<open>(x, y)\<close>, in \<open>(-pi, pi]\<close>.\<close>

definition atan2 :: "real \<Rightarrow> real \<Rightarrow> real" where
  "atan2 y x =
     (if 0 < x then arctan (y / x)
      else if x < 0 then (if 0 \<le> y then arctan (y / x) + pi else arctan (y / x) - pi)
      else if 0 < y then pi / 2
      else if y < 0 then - (pi / 2)
      else 0)"

section \<open>Timers\<close>

text \<open>\<open>setTimeout\<close> returns the identifier \<open>nextTimerId\<close> had before the call.\<close>

definition setTimeout :: "timer_action \<Rightarrow> nat \<Rightarrow> console \<Rightarrow> console" where
  "setTimeout a ms s =
     s\<lparr>timers := timers s @
                  [\<lparr>timer_id = nextTimerId s, timer_due = clock s + ms, timer_action = a\<rparr>],
       nextTimerId := Suc (nextTimerId s)\<rparr>"

definition clearTimeout :: "nat \<Rightarrow> console \<Rightarrow> console" where
  "clearTimeout i s = s\<lparr>timers := filter (\<lambda>t. timer_id t \<noteq> i) (timers s)\<rparr>"

section \<open>The renderer\<close>

text \<open>The values a render shows: what the closures made by a render of that state read.\<close>

definition renderOf :: "console \<Rightarrow> render" where
  "renderOf s =
     \<lparr>seen_currentPose = currentPose s, seen_goalPose = goalPose s, seen_mapZoom = mapZoom s,
      seen_mapOffset = mapOffset s\<rparr>"

text \<open>
  The view geometry of \<open>drawMap\<close> (lines 171 to 187): the display size, the scale and the
  pixel of grid cell \<open>(0, 0)\<close>, from the zoom and pan of the closure's render and the layout
  size \<open>client\<close> the canvas has when \<open>drawMap\<close> runs. A grid of width or height 0 divides by
  zero in the source; the scenarios below use a grid of positive size.
\<close>

record geometry =
  displayWidth :: real
  displayHeight :: real
  finalScale :: real
  offsetX :: real
  offsetY :: real

definition viewGeometry :: "render \<Rightarrow> vec2 \<Rightarrow> map_message \<Rightarrow> geometry" where
  "viewGeometry r client mapMessage =
     (let dispW = (if vx client = 0 then 800 else vx client);
          dispH = (if vy client = 0 then 400 else vy client);
          baseScaleX = dispW / real (width (info mapMessage));
          baseScaleY = dispH / real (height (info mapMessage));
          baseScale = min baseScaleX baseScaleY * (8 / 10);
          scale = baseScale * seen_mapZoom r;
          centerX = dispW / 2;
          centerY = dispH / 2
      in \<lparr>displayWidth = dispW, displayHeight = dispH, finalScale = scale,
          offsetX = centerX - (real (width (info mapMessage)) * scale) / 2 + vx (seen_mapOffset r),
          offsetY = centerY - (real (height (info mapMessage)) * scale) / 2 + vy (seen_mapOffset r)\<rparr>)"

text \<open>
  World point to grid cell (lines 270, 271 for the robot and 311, 312 for the goal), and grid
  cell to surface pixel (lines 273, 274 and 314, 315).
\<close>

definition worldToMap :: "map_message \<Rightarrow> vec2 \<Rightarrow> vec2" where
  "worldToMap mapMessage w =
     \<lparr>vx = (vx w - vx (origin (info mapMessage))) / resolution (info mapMessage),
      vy = real (height (info mapMessage))
             - (vy w - vy (origin (info mapMessage))) / resolution (info mapMessage)\<rparr>"

definition mapToDisplay :: "geometry \<Rightarrow> vec2 \<Rightarrow> vec2" where
  "mapToDisplay g c = \<lparr>vx = offsetX g + vx c * finalScale g, vy = offsetY g + vy c * finalScale g\<rparr>"

text \<open>The robot of \<open>drawMap\<close> (lines 266 to 307): cell, pixel, culling test and heading ray.\<close>

definition robotMap :: "render \<Rightarrow> map_message \<Rightarrow> vec2" where
  "robotMap r mapMessage =
     worldToMap mapMessage
       \<lparr>vx = pose_x (seen_currentPose r), vy = pose_y (seen_currentPose r)\<rparr>"

definition robotDisplay :: "render \<Rightarrow> vec2 \<Rightarrow> map_message \<Rightarrow> vec2" where
  "robotDisplay r client mapMessage =
     mapToDisplay (viewGeometry r client mapMessage) (robotMap r mapMessage)"

definition robotVisible :: "render \<Rightarrow> vec2 \<Rightarrow> map_message \<Rightarrow> bool" where
  "robotVisible r client mapMessage =
     (let g = viewGeometry r client mapMessage; d = robotDisplay r client mapMessage
      in - 50 \<le> vx d \<and> vx d \<le> displayWidth g + 50 \<and> - 50 \<le> vy d \<and> vy d \<le> displayHeight g + 50)"

definition robotArrow :: "render \<Rightarrow> vec2 \<Rightarrow> map_message \<Rightarrow> vec2" where
  "robotArrow r client mapMessage =
     (let d = robotDisplay r client mapMessage;
          theta = pose_theta (seen_currentPose r) * pi / 180;
          arrowLength = 20 * seen_mapZoom r
      in \<lparr>vx = vx d + cos theta * arrowLength, vy = vy d - sin theta * arrowLength\<rparr>)"

text \<open>The goal marker of \<open>drawMap\<close> (lines 310 to 321).\<close>

definition goalDisplay :: "render \<Rightarrow> vec2 \<Rightarrow> map_message \<Rightarrow> vec2 \<Rightarrow> vec2" where
  "goalDisplay r client mapMessage goal =
     mapToDisplay (viewGeometry r client mapMessage) (worldToMap mapMessage goal)"

text \<open>
  The scene the \<open>drawMap\<close> of render \<open>r\<close> paints on a mounted canvas of layout size \<open>client\<close>.
  Nothing is painted for a message with no cells.
\<close>

definition has_cells :: "map_message \<Rightarrow> bool" where
  "has_cells mapMessage = (case data mapMessage of None \<Rightarrow> False | Some d \<Rightarrow> 0 < length d)"

definition drawMap :: "render \<Rightarrow> vec2 \<Rightarrow> map_message \<Rightarrow> scene option" where
  "drawMap r client mapMessage =
     (if \<not> has_cells mapMessage then None
      else Some \<lparr>scene_robot =
                    (if robotVisible r client mapMessage
                     then Some (robotDisplay r client mapMessage, robotArrow r client mapMessage)
                     else None),
                 scene_goal = map_option (goalDisplay r client mapMessage) (seen_goalPose r)\<rparr>)"

text \<open>
  The effect on the state of a call of the \<open>drawMap\<close> of render \<open>r\<close>: the canvas takes the
  display size (lines 173, 174) and shows the scene.
\<close>

definition paint :: "render \<Rightarrow> map_message \<Rightarrow> console \<Rightarrow> console" where
  "paint r mapMessage s =
     (if \<not> has_cells mapMessage then s
      else s\<lparr>canvasSize := \<lparr>vx = displayWidth (viewGeometry r (canvasClient s) mapMessage),
                             vy = displayHeight (viewGeometry r (canvasClient s) mapMessage)\<rparr>,
             painted := drawMap r (canvasClient s) mapMessage\<rparr>)"

section \<open>The topic session\<close>

text \<open>
  The handler subscribed to \<open>/odom\<close> (lines 339 to 353).
\<close>

definition odomHandler :: "odom_message \<Rightarrow> console \<Rightarrow> console" where
  "odomHandler message s =
     (let theta = 2 * atan2 (orientation_z message) (orientation_w message)
      in s\<lparr>currentPose := \<lparr>pose_x = toFixed 3 (vx (position message)),
                            pose_y = toFixed 3 (vy (position message)),
                            pose_theta = toFixed 1 (theta * 180 / pi)\<rparr>,
           linearVel := toFixed 2 (twist_linear_x message),
           angularVel := toFixed 2 (twist_angular_z message)\<rparr>)"

text \<open>
  The handler subscribed to \<open>/map\<close> (lines 363 to 376) by the \<open>setupRosTopics\<close> of render \<open>r\<close>:
  the draw it schedules is the \<open>drawMap\<close> of that render.
\<close>

definition mapHandler :: "render \<Rightarrow> map_message \<Rightarrow> console \<Rightarrow> console" where
  "mapHandler r message s =
     (if has_cells message
      then addLog LogSuccess (MsgMapUpdated (width (info message)) (height (info message)))
             (setTimeout (DrawMap r message) 100 (s\<lparr>mapData := Some message\<rparr>))
      else s)"

text \<open>
  \<open>setupRosTopics(rosInstance)\<close> (lines 325 to 387), for the instance of index \<open>i\<close>. No
  call in its \<open>try\<close> block throws in the model, so the \<open>catch\<close> branch is not reached. Every
  call for an instance comes from the handlers and timers made together with that instance,
  so the handlers it subscribes are those of the instance's \<open>closure\<close>.
\<close>

definition setupRosTopics :: "nat \<Rightarrow> console \<Rightarrow> console" where
  "setupRosTopics i s =
     (let s1 = s\<lparr>cmdVelRef := Some \<lparr>topic_name = CmdVel, topic_ros = i\<rparr>,
                  odomSubRef := Some \<lparr>topic_name = Odom, topic_ros = i\<rparr>,
                  subscriptions := subscriptions s @ [\<lparr>topic_name = Odom, topic_ros = i\<rparr>],
                  mapSubRef := Some \<lparr>topic_name = MapTopic, topic_ros = i\<rparr>\<rparr>;
          s2 = addLog LogInfo MsgSubscribingMap s1;
          s3 = s2\<lparr>subscriptions := subscriptions s2 @ [\<lparr>topic_name = MapTopic, topic_ros = i\<rparr>],
                   batteryIntervals := batteryIntervals s2 @ [i]\<rparr>
      in addLog LogSuccess MsgTopicsReady s3)"

text \<open>The number of Topic Session setups performed: each starts one battery interval.\<close>

definition setupCount :: "console \<Rightarrow> nat" where
  "setupCount s = length (batteryIntervals s)"

section \<open>The connection manager\<close>

text \<open>\<open>isConnected\<close> of the instance of index \<open>i\<close>, and its assignment.\<close>

definition instConnected :: "nat \<Rightarrow> console \<Rightarrow> bool" where
  "instConnected i s = (i < length (instances s) \<and> isConnected (instances s ! i))"

definition setInstConnected :: "nat \<Rightarrow> bool \<Rightarrow> console \<Rightarrow> console" where
  "setInstConnected i b s =
     (if i < length (instances s)
      then s\<lparr>instances := (instances s)[i := (instances s ! i)\<lparr>isConnected := b\<rparr>]\<rparr>
      else s)"

text \<open>\<open>rosRef.current.close()\<close> when the ref holds an instance (lines 39, 418 to 425, 651 to 658).\<close>

definition closeCurrent :: "console \<Rightarrow> console" where
  "closeCurrent s = (case rosRef s of None \<Rightarrow> s | Some r \<Rightarrow> setInstConnected r False s)"

text \<open>
  \<open>initAndSetupROS\<close> of the mount effect (lines 403 to 482); \<open>reconnectTimer\<close> is never
  assigned, so its branch is dead.
\<close>

definition initAndSetupROS :: "console \<Rightarrow> console" where
  "initAndSetupROS s =
     (if connectionAttempted s then s
      else
        let s1 = closeCurrent (s\<lparr>connectionAttempted := True\<rparr>);
            i = length (instances s1);
            tid = nextTimerId s1;
            s2 = setTimeout BootTimeout 10000 s1
        in s2\<lparr>instances := instances s2 @
                             [\<lparr>isConnected = False, via = Boot, timeoutId = tid,
                               closure = renderOf s\<rparr>],
              rosRef := Some i\<rparr>)"

text \<open>The mount effect (lines 390 to 502); the flag tells whether \<open>window.ROSLIB\<close> is there.\<close>

definition mount :: "bool \<Rightarrow> console \<Rightarrow> console" where
  "mount roslib s =
     (if roslib then initAndSetupROS (addLog LogSuccess MsgRoslibLoaded s)
      else addLog LogWarning MsgRoslibMissing s)"

text \<open>
  \<open>attemptROSConnection\<close> (lines 688 to 763), as made by the \<open>initROS\<close> of render \<open>r\<close>.
\<close>

definition attemptROSConnection :: "render \<Rightarrow> console \<Rightarrow> console" where
  "attemptROSConnection r s =
     (let s1 = s\<lparr>robotStatus := StEstablishing\<rparr>;
          i = length (instances s1);
          tid = nextTimerId s1;
          s2 = setTimeout RosTimeout 15000 s1;
          s3 = setTimeout (ManualCheck i) 5000 s2
      in s3\<lparr>instances := instances s3 @
                           [\<lparr>isConnected = False, via = Manual, timeoutId = tid, closure = r\<rparr>],
            rosRef := Some i\<rparr>)"

text \<open>\<open>initROS\<close> up to the creation of the test socket (lines 642 to 669).\<close>

definition initROS :: "console \<Rightarrow> console" where
  "initROS s =
     (let s1 = addLog LogInfo (MsgTrying (rosUrl s)) s;
          s2 = closeCurrent (s1\<lparr>rosConnected := False, robotStatus := StConnecting\<rparr>);
          testTimeout = nextTimerId s2;
          s3 = setTimeout (TestTimeout (length (testSockets s2))) 5000 s2
      in s3\<lparr>testSockets := testSockets s3 @
                             [\<lparr>ws_timeout = testTimeout, ws_connecting = True,
                               ws_closure = renderOf s\<rparr>]\<rparr>)"

text \<open>\<open>testWS.close()\<close>, and the \<open>onopen\<close> and \<open>onerror\<close> handlers of the test socket.\<close>

definition closeTestSocket :: "nat \<Rightarrow> console \<Rightarrow> console" where
  "closeTestSocket k s =
     (if k < length (testSockets s)
      then s\<lparr>testSockets := (testSockets s)[k := (testSockets s ! k)\<lparr>ws_connecting := False\<rparr>]\<rparr>
      else s)"

definition testWsOpen :: "nat \<Rightarrow> console \<Rightarrow> console" where
  "testWsOpen k s =
     (if k < length (testSockets s) \<and> ws_connecting (testSockets s ! k)
      then attemptROSConnection (ws_closure (testSockets s ! k))
             (closeTestSocket k
               (addLog LogSuccess MsgWsTestOk (clearTimeout (ws_timeout (testSockets s ! k)) s)))
      else s)"

definition testWsError :: "nat \<Rightarrow> console \<Rightarrow> console" where
  "testWsError k s =
     (if k < length (testSockets s) \<and> ws_connecting (testSockets s ! k)
      then (closeTestSocket k
              (addLog LogError MsgWsTestError (clearTimeout (ws_timeout (testSockets s ! k)) s)))
           \<lparr>robotStatus := StWsConnFailed\<rparr>
      else s)"

text \<open>
  The handlers registered on a \<open>Ros\<close> instance, by the function that created it: lines 442 to
  471 for the mount path, 704 to 735 for \<open>attemptROSConnection\<close>.
\<close>

definition onConnection :: "nat \<Rightarrow> console \<Rightarrow> console" where
  "onConnection i s =
     (let r = instances s ! i;
          s1 = (clearTimeout (timeoutId r) s)\<lparr>rosConnected := True, robotStatus := StConnected\<rparr>;
          s2 = addLog LogSuccess MsgRosConnected s1
      in setTimeout (SetupTopics i) (case via r of Boot \<Rightarrow> 1000 | Manual \<Rightarrow> 500) s2)"

definition onError :: "nat \<Rightarrow> console \<Rightarrow> console" where
  "onError i s =
     (let r = instances s ! i;
          s1 = clearTimeout (timeoutId r) s
      in case via r of
           Boot \<Rightarrow> (addLog LogError MsgBootError
                      (s1\<lparr>rosConnected := False, robotStatus := StBootError\<rparr>))
                    \<lparr>connectionAttempted := False\<rparr>
         | Manual \<Rightarrow> addLog LogError MsgRosError
                      (s1\<lparr>rosConnected := False, robotStatus := StRosError\<rparr>))"

definition onClose :: "nat \<Rightarrow> console \<Rightarrow> console" where
  "onClose i s =
     (let r = instances s ! i;
          s1 = (clearTimeout (timeoutId r) s)\<lparr>rosConnected := False, robotStatus := StDisconnected\<rparr>
      in case via r of
           Boot \<Rightarrow> (addLog LogWarning MsgBootClosed s1)\<lparr>connectionAttempted := False\<rparr>
         | Manual \<Rightarrow> addLog LogWarning MsgRosClosed s1)"

text \<open>
  The callbacks of the timers: the 10 s timeout of the mount path (lines 433 to 439), the 5 s
  timeout of the test socket (664 to 669), the 15 s timeout of \<open>attemptROSConnection\<close> (697 to
  702), the delayed \<open>setupRosTopics\<close> of the connection handlers, the 5 s check of
  \<open>isConnected\<close> (742 to 753) and the delayed \<open>drawMap\<close>.
\<close>

fun runTimer :: "timer_action \<Rightarrow> console \<Rightarrow> console" where
  "runTimer BootTimeout s =
     (addLog LogError MsgBootTimeout (s\<lparr>rosConnected := False, robotStatus := StBootTimeout\<rparr>))
     \<lparr>connectionAttempted := False\<rparr>"
| "runTimer (TestTimeout k) s =
     (closeTestSocket k (addLog LogError MsgWsTestTimeout s))\<lparr>robotStatus := StWsTestFailed\<rparr>"
| "runTimer RosTimeout s =
     addLog LogError MsgRosTimeout (s\<lparr>rosConnected := False, robotStatus := StRosTimeout\<rparr>)"
| "runTimer (SetupTopics i) s = setupRosTopics i s"
| "runTimer (ManualCheck i) s =
     (if instConnected i s
      then setupRosTopics i
             (addLog LogSuccess MsgRosConfirmed
               ((clearTimeout (timeoutId (instances s ! i)) s)
                  \<lparr>rosConnected := True, robotStatus := StConnected\<rparr>))
      else s)"
| "runTimer (DrawMap r message) s = paint r message s"

section \<open>Teleoperation\<close>

text \<open>\<open>publishCmdVel\<close> (lines 505 to 514): the only place that publishes.\<close>

definition publishCmdVel :: "real \<Rightarrow> real \<Rightarrow> console \<Rightarrow> console" where
  "publishCmdVel lin ang s =
     (if \<not> rosConnected s then s
      else case cmdVelRef s of
             None \<Rightarrow> s
           | Some t \<Rightarrow> s\<lparr>published := published s @ [(t, \<lparr>linear_x = lin, angular_z = ang\<rparr>)]\<rparr>)"

definition stopRobot :: "console \<Rightarrow> console" where
  "stopRobot s = addLog LogWarning MsgRobotStopped ((publishCmdVel 0 0 s)\<lparr>isPatrolling := False\<rparr>)"

text \<open>The argument of \<open>moveRobot\<close>; \<open>OtherDirection\<close> is the \<open>default\<close> case of its switch.\<close>

datatype direction =
  Forward | Backward | TurnLeft | TurnRight | RotateLeft | RotateRight | OtherDirection

fun velocityOf :: "direction \<Rightarrow> console \<Rightarrow> real \<times> real" where
  "velocityOf Forward s = (speed s, 0)"
| "velocityOf Backward s = (- speed s, 0)"
| "velocityOf TurnLeft s = (0, angularSpeed s)"
| "velocityOf TurnRight s = (0, - angularSpeed s)"
| "velocityOf RotateLeft s = (0, angularSpeed s)"
| "velocityOf RotateRight s = (0, - angularSpeed s)"
| "velocityOf OtherDirection s = (0, 0)"

text \<open>\<open>moveRobot\<close> (lines 522 to 555).\<close>

definition moveRobot :: "direction \<Rightarrow> console \<Rightarrow> console" where
  "moveRobot d s =
     (if \<not> rosConnected s then addLog LogError MsgConnectFirst s
      else
        let lin = fst (velocityOf d s); ang = snd (velocityOf d s)
        in addLog LogInfo (MsgMoveCommand (toFixed 2 lin) (toFixed 2 ang))
             (publishCmdVel lin ang s))"

section \<open>The view transform controller\<close>

text \<open>
  The redraw the view handlers ask for when a map is held: \<open>setTimeout(() => drawMap(mapData),
  ms)\<close>. The handler, its \<open>mapData\<close> and its \<open>drawMap\<close> belong to the render showing the state
  \<open>s0\<close> in which the event arrives, so the redraw paints the view as it was before the
  handler's own update.
\<close>

definition redrawLater :: "nat \<Rightarrow> console \<Rightarrow> console \<Rightarrow> console" where
  "redrawLater ms s0 s =
     (case mapData s0 of None \<Rightarrow> s | Some m \<Rightarrow> setTimeout (DrawMap (renderOf s0) m) ms s)"

text \<open>\<open>handleMapWheel\<close> (lines 558 to 567), from the event's \<open>deltaY\<close>.\<close>

definition handleMapWheel :: "real \<Rightarrow> console \<Rightarrow> console" where
  "handleMapWheel deltaY s =
     (let delta = (if 0 < deltaY then 9 / 10 else 11 / 10);
          newZoom = max (1 / 2) (min 5 (mapZoom s * delta))
      in redrawLater 10 s (s\<lparr>mapZoom := newZoom\<rparr>))"

text \<open>The drag handlers (lines 569 to 594), from the event's \<open>clientX\<close> and \<open>clientY\<close>.\<close>

definition handleMapMouseDown :: "vec2 \<Rightarrow> console \<Rightarrow> console" where
  "handleMapMouseDown p s = s\<lparr>isDragging := True, lastMousePos := p\<rparr>"

definition handleMapMouseMove :: "vec2 \<Rightarrow> console \<Rightarrow> console" where
  "handleMapMouseMove p s =
     (if \<not> isDragging s then s
      else
        let deltaX = vx p - vx (lastMousePos s);
            deltaY = vy p - vy (lastMousePos s);
            s1 = s\<lparr>mapOffset := \<lparr>vx = vx (mapOffset s) + deltaX, vy = vy (mapOffset s) + deltaY\<rparr>,
                   lastMousePos := p\<rparr>
        in case mapData s of None \<Rightarrow> s1 | Some m \<Rightarrow> paint (renderOf s) m s1)"

definition handleMapMouseUp :: "console \<Rightarrow> console" where
  "handleMapMouseUp s = s\<lparr>isDragging := False\<rparr>"

text \<open>\<open>resetMapView\<close> (lines 596 to 600).\<close>

definition resetMapView :: "console \<Rightarrow> console" where
  "resetMapView s = redrawLater 10 s (s\<lparr>mapZoom := 1, mapOffset := \<lparr>vx = 0, vy = 0\<rparr>\<rparr>)"

section \<open>The interaction router\<close>

text \<open>
  \<open>newStationName.trim()\<close> is truthy when the name has a code unit that \<open>trim\<close> does not
  strip. It strips the white space and line terminators of ECMAScript: tab, line feed,
  vertical tab, form feed, carriage return, space, no-break space (U+00A0), U+1680, U+2000 to
  U+200A, U+2028, U+2029, U+202F, U+205F, U+3000 and U+FEFF.
\<close>

definition is_space :: "nat \<Rightarrow> bool" where
  "is_space c =
     ((0x09 \<le> c \<and> c \<le> 0x0D) \<or> c = 0x20 \<or> c = 0xA0 \<or> c = 0x1680
      \<or> (0x2000 \<le> c \<and> c \<le> 0x200A) \<or> c = 0x2028 \<or> c = 0x2029 \<or> c = 0x202F \<or> c = 0x205F
      \<or> c = 0x3000 \<or> c = 0xFEFF)"

definition trim_nonempty :: "jsstring \<Rightarrow> bool" where
  "trim_nonempty name = (filter (\<lambda>c. \<not> is_space c) name \<noteq> [])"

text \<open>
  The inverse transform of the navigation branch (lines 635, 636): surface pixel to world
  point, from the held map and the canvas height.
\<close>

definition clickToWorld :: "console \<Rightarrow> map_message \<Rightarrow> vec2 \<Rightarrow> vec2" where
  "clickToWorld s m p =
     \<lparr>vx = vx p * resolution (info m) + vx (origin (info m)),
      vy = (vy (canvasSize s) - vy p) * resolution (info m) + vy (origin (info m))\<rparr>"

text \<open>
  \<open>handleMapClick\<close> (lines 603 to 640), from the click's position on the canvas
  (\<open>clientX - rect.left\<close>, \<open>clientY - rect.top\<close>). New identifiers are \<open>Date.now()\<close>.
\<close>

definition handleMapClick :: "vec2 \<Rightarrow> console \<Rightarrow> console" where
  "handleMapClick p s =
     (case mapData s of
        None \<Rightarrow> s
      | Some m \<Rightarrow>
          (case currentMode s of
             Mapping \<Rightarrow>
               if trim_nonempty (newStationName s)
               then addLog LogSuccess (MsgNewStation (newStationName s))
                      (s\<lparr>stations := stations s @
                            [\<lparr>station_id = clock s, station_name = newStationName s,
                              station_x = vx p, station_y = vy p, station_kind = Work\<rparr>],
                         newStationName := []\<rparr>)
               else s
           | Waypoints \<Rightarrow>
               addLog LogSuccess (MsgNewWaypoint (length (waypoints s) + 1))
                 (s\<lparr>waypoints := waypoints s @
                       [\<lparr>wp_id = clock s, wp_x = vx p, wp_y = vy p,
                         wp_order = length (waypoints s) + 1\<rparr>]\<rparr>)
           | Navigation \<Rightarrow>
               let w = clickToWorld s m p
               in addLog LogInfo (MsgGoalSet (toFixed 2 (vx w)) (toFixed 2 (vy w)))
                    (s\<lparr>goalPose := Some w\<rparr>)
           | Teleop \<Rightarrow> s))"

text \<open>The station list's delete button (line 1171). The waypoint list has no delete.\<close>

definition deleteStation :: "nat \<Rightarrow> console \<Rightarrow> console" where
  "deleteStation i s = s\<lparr>stations := filter (\<lambda>st. station_id st \<noteq> i) (stations s)\<rparr>"

section \<open>Events and time\<close>

text \<open>
  Everything that can happen to the console: the mount, the operator's actions, the events of
  the test socket of a given index and of the \<open>Ros\<close> instance of a given index, and the
  messages of the topics of an instance.
\<close>

datatype event =
    Mount bool
  | InitROS
  | TestWsOpen nat
  | TestWsError nat
  | RosConnection nat
  | RosError nat
  | RosClose nat
  | OdomMessage nat odom_message
  | MapMessage nat map_message
  | Move direction
  | Stop
  | Wheel real
  | MouseDown vec2
  | MouseMove vec2
  | MouseUp
  | ResetView
  | Click vec2
  | SetMode mode
  | SetStationName jsstring
  | DeleteStation nat

text \<open>
  A message of a topic runs the handler of every subscription to that topic on that instance.
\<close>

primrec times_run :: "nat \<Rightarrow> ('a \<Rightarrow> 'a) \<Rightarrow> 'a \<Rightarrow> 'a" where
  "times_run 0 f s = s"
| "times_run (Suc n) f s = times_run n f (f s)"

definition subscribers :: "topic_name \<Rightarrow> nat \<Rightarrow> console \<Rightarrow> nat" where
  "subscribers n i s =
     length (filter (\<lambda>t. topic_name t = n \<and> topic_ros t = i) (subscriptions s))"

text \<open>
  The transport sets \<open>isConnected\<close> before it raises \<open>connection\<close> (lines 34, 35) and clears it
  on \<open>close\<close>. An event for an instance that was never created is dropped. The handlers run
  on an event read the state itself: the render is up to date when an event arrives.
\<close>

fun handle :: "event \<Rightarrow> console \<Rightarrow> console" where
  "handle (Mount roslib) s = mount roslib s"
| "handle InitROS s = initROS s"
| "handle (TestWsOpen k) s = testWsOpen k s"
| "handle (TestWsError k) s = testWsError k s"
| "handle (RosConnection i) s =
     (if i < length (instances s) then onConnection i (setInstConnected i True s) else s)"
| "handle (RosError i) s = (if i < length (instances s) then onError i s else s)"
| "handle (RosClose i) s =
     (if i < length (instances s) then onClose i (setInstConnected i False s) else s)"
| "handle (OdomMessage i m) s = times_run (subscribers Odom i s) (odomHandler m) s"
| "handle (MapMessage i m) s =
     (if i < length (instances s)
      then times_run (subscribers MapTopic i s) (mapHandler (closure (instances s ! i)) m) s
      else s)"
| "handle (Move d) s = moveRobot d s"
| "handle Stop s = stopRobot s"
| "handle (Wheel deltaY) s = handleMapWheel deltaY s"
| "handle (MouseDown p) s = handleMapMouseDown p s"
| "handle (MouseMove p) s = handleMapMouseMove p s"
| "handle MouseUp s = handleMapMouseUp s"
| "handle ResetView s = resetMapView s"
| "handle (Click p) s = handleMapClick p s"
| "handle (SetMode m) s = s\<lparr>currentMode := m\<rparr>"
| "handle (SetStationName n) s = s\<lparr>newStationName := n\<rparr>"
| "handle (DeleteStation i) s = deleteStation i s"

text \<open>
  Firing a pending timer: it leaves the pending list, the clock reaches its due time, its
  callback runs. \<open>advance t\<close> fires the timers due by time \<open>t\<close>, earliest first and in the
  order of their creation among equals, skipping one that an earlier callback cleared; no
  callback starts a timer. \<open>deliver\<close> lets time pass up to an event and then handles it.
\<close>

definition fire :: "timer \<Rightarrow> console \<Rightarrow> console" where
  "fire tm s =
     (if timer_id tm \<in> set (map timer_id (timers s))
      then runTimer (timer_action tm)
             (s\<lparr>timers := filter (\<lambda>u. timer_id u \<noteq> timer_id tm) (timers s),
                clock := max (clock s) (timer_due tm)\<rparr>)
      else s)"

definition advance :: "nat \<Rightarrow> console \<Rightarrow> console" where
  "advance t s =
     (let s1 = foldl (\<lambda>a tm. fire tm a) s
                 (sort_key timer_due (filter (\<lambda>tm. timer_due tm \<le> t) (timers s)))
      in s1\<lparr>clock := max (clock s1) t\<rparr>)"

definition deliver :: "nat \<times> event \<Rightarrow> console \<Rightarrow> console" where
  "deliver te s = handle (snd te) (advance (fst te) s)"

definition run :: "(nat \<times> event) list \<Rightarrow> console \<Rightarrow> console" where
  "run tes s = foldl (\<lambda>a te. deliver te a) s tes"

section \<open>The initial state\<close>

text \<open>
  The initial values of the state cells and refs, at time 0, before the mount effect, with a
  canvas laid out at 800 by 400 pixels, still of the default size 300 by 150 and blank. The
  seed stations are named by the code units of their names.
\<close>

definition initial :: console where
  "initial =
     \<lparr>rosConnected = False, robotStatus = StNotConnected, rosUrl = ''ws://127.0.0.1:9090'',
      currentPose = \<lparr>pose_x = 0, pose_y = 0, pose_theta = 0\<rparr>,
      linearVel = 0, angularVel = 0, speed = 2 / 10, angularSpeed = 5 / 10,
      currentMode = Teleop, mapData = None,
      stations =
        [\<lparr>station_id = 1, station_name = [0x5145, 0x96FB, 0x7AD9], station_x = 50,
          station_y = 50, station_kind = Charging\<rparr>,
         \<lparr>station_id = 2, station_name = [0x5DE5, 0x4F5C, 0x7AD9, 0x41], station_x = 300,
          station_y = 80, station_kind = Work\<rparr>,
         \<lparr>station_id = 3, station_name = [0x5DE5, 0x4F5C, 0x7AD9, 0x42], station_x = 350,
          station_y = 200, station_kind = Work\<rparr>],
      waypoints =
        [\<lparr>wp_id = 1, wp_x = 100, wp_y = 75, wp_order = 1\<rparr>,
         \<lparr>wp_id = 2, wp_x = 250, wp_y = 120, wp_order = 2\<rparr>,
         \<lparr>wp_id = 3, wp_x = 320, wp_y = 180, wp_order = 3\<rparr>],
      goalPose = None, isPatrolling = False, mapZoom = 1, mapOffset = \<lparr>vx = 0, vy = 0\<rparr>,
      isDragging = False, lastMousePos = \<lparr>vx = 0, vy = 0\<rparr>, newStationName = [],
      logs = [\<lparr>log_time = 0, log_type = LogInfo, log_message = MsgStartup, log_timestamp = None\<rparr>],
      cmdVelRef = None, odomSubRef = None, mapSubRef = None, rosRef = None,
      connectionAttempted = False, clock = 0, timers = [], nextTimerId = 0, instances = [],
      testSockets = [], subscriptions = [], batteryIntervals = [], published = [],
      logBroadcast = None, canvasClient = \<lparr>vx = 800, vy = 400\<rparr>,
      canvasSize = \<lparr>vx = 300, vy = 150\<rparr>, painted = None\<rparr>"


section \<open>Scenarios\<close>

text \<open>
  The grid of the end-to-end scenario: 4 by 4 cells of 1 m, origin \<open>(0, 0)\<close>, all cells free;
  the same message with no cells, and with \<open>data\<close> missing.
\<close>

definition grid4 :: map_message where
  "grid4 = \<lparr>info = \<lparr>width = 4, height = 4, resolution = 1, origin = \<lparr>vx = 0, vy = 0\<rparr>\<rparr>,
            data = Some (replicate 16 0)\<rparr>"

definition emptyGrid :: map_message where
  "emptyGrid = grid4\<lparr>data := Some []\<rparr>"

definition missingGrid :: map_message where
  "missingGrid = grid4\<lparr>data := None\<rparr>"

text \<open>Telemetry of a robot at \<open>(2, 2)\<close> with orientation \<open>z = 0\<close>, \<open>w = 1\<close>, at rest.\<close>

definition telemetry22 :: odom_message where
  "telemetry22 = \<lparr>position = \<lparr>vx = 2, vy = 2\<rparr>, orientation_z = 0, orientation_w = 1,
                  twist_linear_x = 0, twist_angular_z = 0\<rparr>"

text \<open>
  Telemetry of a robot at the origin heading 11.25 degrees: the unit quaternion of that yaw
  has \<open>z = sin (pi / 32)\<close> and \<open>w = cos (pi / 32)\<close>.
\<close>

definition telemetryYaw :: odom_message where
  "telemetryYaw = \<lparr>position = \<lparr>vx = 0, vy = 0\<rparr>, orientation_z = sin (pi / 32),
                   orientation_w = cos (pi / 32), twist_linear_x = 0, twist_angular_z = 0\<rparr>"

text \<open>
  The console in navigation mode holding \<open>grid4\<close>, after the \<open>drawMap\<close> of its own render has
  painted it once (the canvas is then 800 by 400), with the default view.
\<close>

definition navState :: console where
  "navState =
     paint (renderOf initial) grid4 (initial\<lparr>mapData := Some grid4, currentMode := Navigation\<rparr>)"

text \<open>
  The mounted console connects, receives \<open>grid4\<close> at 2 s and the telemetry at 3 s; the
  operator resets the view at 4 s, which redraws 10 ms later; the state at 5 s.
\<close>

definition redrawnAfterTelemetry :: console where
  "redrawnAfterTelemetry =
     advance 5000
       (run [(0, Mount True), (100, RosConnection 0), (2000, MapMessage 0 grid4),
             (3000, OdomMessage 0 telemetry22), (4000, ResetView)] initial)"

text \<open>
  The mounted console connects, receives the telemetry at 2 s and only then \<open>grid4\<close>, at 3 s,
  whose handler draws 100 ms later; the state at 4 s.
\<close>

definition drawnByGridMessage :: console where
  "drawnByGridMessage =
     advance 4000
       (run [(0, Mount True), (100, RosConnection 0), (2000, OdomMessage 0 telemetry22),
             (3000, MapMessage 0 grid4)] initial)"

text \<open>
  The operator connects at time 0, the test socket opens at 100 ms and the bridge raises
  \<open>connection\<close> at 200 ms, or only at 6000 ms; the state 20 s later.
\<close>

definition earlyConnect :: console where
  "earlyConnect =
     advance 20000 (run [(0, InitROS), (100, TestWsOpen 0), (200, RosConnection 0)] initial)"

definition lateConnect :: console where
  "lateConnect =
     advance 20000 (run [(0, InitROS), (100, TestWsOpen 0), (6000, RosConnection 0)] initial)"

text \<open>
  The mount path: the component mounts at time 0 with the library present and the bridge
  raises \<open>connection\<close> at 100 ms, once or again at 200 ms; the state at 5 s.
\<close>

definition bootConnect :: console where
  "bootConnect = advance 5000 (run [(0, Mount True), (100, RosConnection 0)] initial)"

definition bootConnectTwice :: console where
  "bootConnectTwice =
     advance 5000 (run [(0, Mount True), (100, RosConnection 0), (200, RosConnection 0)] initial)"

text \<open>
  The inverse transform as the specification words it (section 4.4), for comparison with
  \<open>clickToWorld\<close>: \<open>gx = (px - originPx.x) / finalScale\<close>, \<open>wx = gx * resolution +
  gridOrigin.x\<close>, \<open>wy = (gridHeight - (py - originPx.y) / finalScale) * resolution +
  gridOrigin.y\<close>.
\<close>

definition specInverse :: "render \<Rightarrow> vec2 \<Rightarrow> map_message \<Rightarrow> vec2 \<Rightarrow> vec2" where
  "specInverse r client m p =
     (let g = viewGeometry r client m
      in \<lparr>vx = (vx p - offsetX g) / finalScale g * resolution (info m) + vx (origin (info m)),
          vy = (real (height (info m)) - (vy p - offsetY g) / finalScale g) * resolution (info m)
                 + vy (origin (info m))\<rparr>)"

section \<open>Fields no handler but their own touches\<close>

lemma mapZoom_addLog [simp]: "mapZoom (addLog ty msg s) = mapZoom s"
  by (simp add: addLog_def)

lemma mapZoom_setTimeout [simp]: "mapZoom (setTimeout a ms s) = mapZoom s"
  by (simp add: setTimeout_def)

lemma mapZoom_clearTimeout [simp]: "mapZoom (clearTimeout i s) = mapZoom s"
  by (simp add: clearTimeout_def)

lemma mapZoom_paint [simp]: "mapZoom (paint r m s) = mapZoom s"
  by (simp add: paint_def)

lemma mapZoom_setupRosTopics [simp]: "mapZoom (setupRosTopics i s) = mapZoom s"
  by (simp add: setupRosTopics_def Let_def)

lemma mapZoom_setInstConnected [simp]: "mapZoom (setInstConnected i b s) = mapZoom s"
  by (simp add: setInstConnected_def)

lemma mapZoom_closeCurrent [simp]: "mapZoom (closeCurrent s) = mapZoom s"
  by (simp add: closeCurrent_def split: option.splits)

lemma mapZoom_closeTestSocket [simp]: "mapZoom (closeTestSocket k s) = mapZoom s"
  by (simp add: closeTestSocket_def)

lemma mapZoom_redrawLater [simp]: "mapZoom (redrawLater ms s0 s) = mapZoom s"
  by (simp add: redrawLater_def split: option.splits)

lemma mapZoom_runTimer [simp]: "mapZoom (runTimer a s) = mapZoom s"
  by (cases a) simp_all

lemma mapZoom_fire [simp]: "mapZoom (fire tm s) = mapZoom s"
  by (simp add: fire_def)

lemma mapZoom_fires: "mapZoom (foldl (\<lambda>a tm. fire tm a) s tms) = mapZoom s"
  by (induction tms arbitrary: s) simp_all

lemma mapZoom_advance [simp]: "mapZoom (advance t s) = mapZoom s"
  by (simp add: advance_def Let_def mapZoom_fires)

lemma mapZoom_odomHandler [simp]: "mapZoom (odomHandler m s) = mapZoom s"
  by (simp add: odomHandler_def Let_def)

lemma mapZoom_mapHandler [simp]: "mapZoom (mapHandler r m s) = mapZoom s"
  by (simp add: mapHandler_def)

lemma mapZoom_times_run:
  "(\<And>s. mapZoom (f s) = mapZoom s) \<Longrightarrow> mapZoom (times_run n f s) = mapZoom s"
  by (induction n arbitrary: s) simp_all

lemma published_addLog [simp]: "published (addLog ty msg s) = published s"
  by (simp add: addLog_def)

lemma published_setTimeout [simp]: "published (setTimeout a ms s) = published s"
  by (simp add: setTimeout_def)

lemma published_clearTimeout [simp]: "published (clearTimeout i s) = published s"
  by (simp add: clearTimeout_def)

lemma published_paint [simp]: "published (paint r m s) = published s"
  by (simp add: paint_def)

lemma published_setupRosTopics [simp]: "published (setupRosTopics i s) = published s"
  by (simp add: setupRosTopics_def Let_def)

lemma published_setInstConnected [simp]: "published (setInstConnected i b s) = published s"
  by (simp add: setInstConnected_def)

lemma published_closeCurrent [simp]: "published (closeCurrent s) = published s"
  by (simp add: closeCurrent_def split: option.splits)

lemma published_closeTestSocket [simp]: "published (closeTestSocket k s) = published s"
  by (simp add: closeTestSocket_def)

lemma published_redrawLater [simp]: "published (redrawLater ms s0 s) = published s"
  by (simp add: redrawLater_def split: option.splits)

lemma published_runTimer [simp]: "published (runTimer a s) = published s"
  by (cases a) simp_all

lemma published_fire [simp]: "published (fire tm s) = published s"
  by (simp add: fire_def)

lemma published_fires: "published (foldl (\<lambda>a tm. fire tm a) s tms) = published s"
  by (induction tms arbitrary: s) simp_all

lemma published_advance [simp]: "published (advance t s) = published s"
  by (simp add: advance_def Let_def published_fires)

lemma published_odomHandler [simp]: "published (odomHandler m s) = published s"
  by (simp add: odomHandler_def Let_def)

lemma published_mapHandler [simp]: "published (mapHandler r m s) = published s"
  by (simp add: mapHandler_def)

lemma published_times_run:
  "(\<And>s. published (f s) = published s) \<Longrightarrow> published (times_run n f s) = published s"
  by (induction n arbitrary: s) simp_all

lemma waypoints_addLog [simp]: "waypoints (addLog ty msg s) = waypoints s"
  by (simp add: addLog_def)

lemma waypoints_setTimeout [simp]: "waypoints (setTimeout a ms s) = waypoints s"
  by (simp add: setTimeout_def)

lemma waypoints_clearTimeout [simp]: "waypoints (clearTimeout i s) = waypoints s"
  by (simp add: clearTimeout_def)

lemma waypoints_paint [simp]: "waypoints (paint r m s) = waypoints s"
  by (simp add: paint_def)

lemma waypoints_setupRosTopics [simp]: "waypoints (setupRosTopics i s) = waypoints s"
  by (simp add: setupRosTopics_def Let_def)

lemma waypoints_setInstConnected [simp]: "waypoints (setInstConnected i b s) = waypoints s"
  by (simp add: setInstConnected_def)

lemma waypoints_closeCurrent [simp]: "waypoints (closeCurrent s) = waypoints s"
  by (simp add: closeCurrent_def split: option.splits)

lemma waypoints_closeTestSocket [simp]: "waypoints (closeTestSocket k s) = waypoints s"
  by (simp add: closeTestSocket_def)

lemma waypoints_redrawLater [simp]: "waypoints (redrawLater ms s0 s) = waypoints s"
  by (simp add: redrawLater_def split: option.splits)

lemma waypoints_runTimer [simp]: "waypoints (runTimer a s) = waypoints s"
  by (cases a) simp_all

lemma waypoints_fire [simp]: "waypoints (fire tm s) = waypoints s"
  by (simp add: fire_def)

lemma waypoints_fires: "waypoints (foldl (\<lambda>a tm. fire tm a) s tms) = waypoints s"
  by (induction tms arbitrary: s) simp_all

lemma waypoints_advance [simp]: "waypoints (advance t s) = waypoints s"
  by (simp add: advance_def Let_def waypoints_fires)

lemma waypoints_odomHandler [simp]: "waypoints (odomHandler m s) = waypoints s"
  by (simp add: odomHandler_def Let_def)

lemma waypoints_mapHandler [simp]: "waypoints (mapHandler r m s) = waypoints s"
  by (simp add: mapHandler_def)

lemma waypoints_times_run:
  "(\<And>s. waypoints (f s) = waypoints s) \<Longrightarrow> waypoints (times_run n f s) = waypoints s"
  by (induction n arbitrary: s) simp_all

lemma published_publishCmdVel:
  "\<not> rosConnected s \<or> cmdVelRef s = None \<Longrightarrow> publishCmdVel lin ang s = s"
  by (auto simp: publishCmdVel_def split: option.splits)

lemma mapZoom_publishCmdVel [simp]: "mapZoom (publishCmdVel lin ang s) = mapZoom s"
  by (simp add: publishCmdVel_def split: option.splits)

lemma waypoints_publishCmdVel [simp]: "waypoints (publishCmdVel lin ang s) = waypoints s"
  by (simp add: publishCmdVel_def split: option.splits)

lemmas handler_defs =
  mount_def initAndSetupROS_def initROS_def testWsOpen_def testWsError_def
  attemptROSConnection_def onConnection_def onError_def onClose_def moveRobot_def stopRobot_def
  handleMapWheel_def handleMapMouseDown_def handleMapMouseMove_def handleMapMouseUp_def
  resetMapView_def handleMapClick_def deleteStation_def Let_def

lemma mapZoom_handle:
  "mapZoom (handle e s) =
     (case e of
        Wheel deltaY \<Rightarrow> max (1 / 2) (min 5 (mapZoom s * (if 0 < deltaY then 9 / 10 else 11 / 10)))
      | ResetView \<Rightarrow> 1
      | _ \<Rightarrow> mapZoom s)"
  by (cases e)
     (simp_all add: handler_defs mapZoom_times_run
        split: option.splits origin_path.splits mode.splits)

lemma clamp_range:
  "1 / 2 \<le> max (1 / 2) (min 5 x) \<and> max (1 / 2) (min 5 x) \<le> (5::real)"
  by (simp add: max_def min_def)

lemma zoom_range_handle:
  assumes "1 / 2 \<le> mapZoom s \<and> mapZoom s \<le> 5"
  shows "1 / 2 \<le> mapZoom (handle e s) \<and> mapZoom (handle e s) \<le> 5"
proof (cases e)
  case (Wheel deltaY)
  show ?thesis
    unfolding Wheel mapZoom_handle event.case by (rule clamp_range)
next
  case ResetView
  show ?thesis
    unfolding ResetView mapZoom_handle event.case by simp
qed (use assms in \<open>simp_all add: mapZoom_handle del: handle.simps\<close>)

lemma zoom_range_run:
  "1 / 2 \<le> mapZoom s \<and> mapZoom s \<le> 5 \<Longrightarrow>
   1 / 2 \<le> mapZoom (run tes s) \<and> mapZoom (run tes s) \<le> 5"
proof (induction tes arbitrary: s)
  case Nil
  then show ?case by (simp add: run_def)
next
  case (Cons te tes)
  have "1 / 2 \<le> mapZoom (deliver te s) \<and> mapZoom (deliver te s) \<le> 5"
    unfolding deliver_def using Cons.prems by (intro zoom_range_handle) simp
  from Cons.IH [OF this] show ?case by (simp add: run_def)
qed

lemma published_handle:
  "\<not> rosConnected s \<or> cmdVelRef s = None \<Longrightarrow> published (handle e s) = published s"
  by (cases e)
     (auto simp: handler_defs published_times_run published_publishCmdVel
        split: option.splits origin_path.splits mode.splits)

lemma waypoints_handle:
  "take (length (waypoints s)) (waypoints (handle e s)) = waypoints s"
  by (cases e)
     (simp_all add: handler_defs waypoints_times_run
        split: option.splits origin_path.splits mode.splits)

text \<open>The definitions a run of events unfolds to.\<close>

lemmas trace_defs =
  run_def deliver_def advance_def fire_def initial_def mount_def initAndSetupROS_def initROS_def
  testWsOpen_def attemptROSConnection_def onConnection_def setInstConnected_def
  instConnected_def setupRosTopics_def setupCount_def addLog_def setTimeout_def
  clearTimeout_def closeCurrent_def closeTestSocket_def slice_last_def Let_def

section \<open>Rounding and angles\<close>

lemma toFixed_error: "\<bar>toFixed d v - v\<bar> \<le> 1 / (2 * 10 ^ d)"
proof -
  define x where "x = \<bar>v\<bar> * 10 ^ d"
  define n where "n = \<lfloor>x + 1 / 2\<rfloor>"
  have p: "(0::real) < 10 ^ d" by simp
  have "real_of_int n \<le> x + 1 / 2" and "x + 1 / 2 < real_of_int n + 1"
    unfolding n_def by linarith+
  then have near: "\<bar>real_of_int n - x\<bar> \<le> 1 / 2" by linarith
  have "real_of_int n / 10 ^ d - \<bar>v\<bar> = (real_of_int n - x) / 10 ^ d"
    using p by (simp add: x_def field_simps)
  then have "\<bar>real_of_int n / 10 ^ d - \<bar>v\<bar>\<bar> = \<bar>real_of_int n - x\<bar> / 10 ^ d"
    using p by simp
  also have "\<dots> \<le> (1 / 2) / 10 ^ d"
    using near p by (intro divide_right_mono) simp_all
  finally have e: "\<bar>real_of_int n / 10 ^ d - \<bar>v\<bar>\<bar> \<le> 1 / (2 * 10 ^ d)" by simp
  have "toFixed d v - v = sgn v * (real_of_int n / 10 ^ d - \<bar>v\<bar>)"
    by (simp add: toFixed_def n_def x_def algebra_simps sgn_real_def abs_real_def)
  then have "\<bar>toFixed d v - v\<bar> = \<bar>sgn v\<bar> * \<bar>real_of_int n / 10 ^ d - \<bar>v\<bar>\<bar>"
    by (simp add: abs_mult)
  also have "\<dots> \<le> 1 * \<bar>real_of_int n / 10 ^ d - \<bar>v\<bar>\<bar>"
    by (intro mult_right_mono) (auto simp: sgn_real_def)
  finally show ?thesis using e by simp
qed

lemma atan2_unit: "atan2 0 1 = 0"
  by (simp add: atan2_def)

lemma atan2_second_quadrant: "atan2 1 (- 1) = 3 * pi / 4"
  by (simp add: atan2_def arctan_minus arctan_one)

lemma atan2_sin_cos: "- (pi / 2) < a \<Longrightarrow> a < pi / 2 \<Longrightarrow> atan2 (sin a) (cos a) = a"
  using cos_gt_zero_pi [of a] arctan_tan [of a] by (simp add: atan2_def tan_def)

lemma atan2_yaw: "atan2 (sin (pi / 32)) (cos (pi / 32)) = pi / 32"
  by (rule atan2_sin_cos) (use pi_gt_zero in linarith)+

section \<open>The log\<close>

text \<open>
  C10: after every \<open>addLog\<close> the console retains at most 10 log entries: the previous list
  without all but its last 9 entries, followed by the new entry, so the length is the
  smaller of 10 and the previous length plus one. The monitor's append of a broadcast entry
  keeps the same entries and the same bound.
\<close>

theorem log_list_bounded:
  "logs (addLog ty msg s) =
     drop (length (logs s) - 9) (logs s) @
     [\<lparr>log_time = clock s, log_type = ty, log_message = msg, log_timestamp = None\<rparr>]
   \<and> length (logs (addLog ty msg s)) = min 10 (Suc (length (logs s)))
   \<and> length (logs (addLog ty msg s)) \<le> 10
   \<and> mon_logs (handleStorageChange (LogBroadcastKey (Some e)) m) =
       drop (length (mon_logs m) - 9) (mon_logs m) @ [e]
   \<and> length (mon_logs (handleStorageChange (LogBroadcastKey (Some e)) m)) =
       min 10 (Suc (length (mon_logs m)))
   \<and> length (mon_logs (handleStorageChange (LogBroadcastKey (Some e)) m)) \<le> 10"
  by (simp add: addLog_def slice_last_def) arith

section \<open>The view transform\<close>

text \<open>
  C8: the zoom stays in [0.5, 5.0]. A wheel gesture multiplies it by 0.9 (\<open>deltaY > 0\<close>) or
  1.1 and clamps the product to [0.5, 5.0]; the reset restores zoom 1.0 and pan offset
  \<open>{0, 0}\<close>; no other handler or timer writes the zoom, so it is in range after every
  sequence of events from the initial state.
\<close>

theorem zoom_stays_in_range:
  "mapZoom (handleMapWheel deltaY s) =
     max (1 / 2) (min 5 (mapZoom s * (if 0 < deltaY then 9 / 10 else 11 / 10)))
   \<and> 1 / 2 \<le> mapZoom (handleMapWheel deltaY s) \<and> mapZoom (handleMapWheel deltaY s) \<le> 5
   \<and> mapZoom (resetMapView s) = 1 \<and> mapOffset (resetMapView s) = \<lparr>vx = 0, vy = 0\<rparr>
   \<and> 1 / 2 \<le> mapZoom (run tes initial) \<and> mapZoom (run tes initial) \<le> 5"
proof -
  have wheel: "mapZoom (handleMapWheel deltaY s) =
      max (1 / 2) (min 5 (mapZoom s * (if 0 < deltaY then 9 / 10 else 11 / 10)))"
    by (simp add: handleMapWheel_def Let_def)
  have reset: "mapZoom (resetMapView s) = 1 \<and> mapOffset (resetMapView s) = \<lparr>vx = 0, vy = 0\<rparr>"
    by (simp add: resetMapView_def redrawLater_def setTimeout_def split: option.splits)
  have "1 / 2 \<le> mapZoom initial \<and> mapZoom initial \<le> 5"
    by (simp add: initial_def)
  then have trace: "1 / 2 \<le> mapZoom (run tes initial) \<and> mapZoom (run tes initial) \<le> 5"
    by (rule zoom_range_run)
  show ?thesis
    unfolding wheel using reset trace clamp_range by blast
qed

section \<open>Waypoints\<close>

text \<open>
  C7: a click in waypoint mode appends a waypoint whose order is the current count plus one,
  so three such clicks on an empty list give the orders 1, 2, 3; and whatever event is
  delivered at whatever time, the waypoints already in the list stay as they are, in place
  (the console has no operation that deletes or renumbers a waypoint).
\<close>

theorem waypoint_order_assignment:
  assumes "mapData s = Some m" and "currentMode s = Waypoints"
  shows "waypoints (handleMapClick p s) =
           waypoints s @ [\<lparr>wp_id = clock s, wp_x = vx p, wp_y = vy p,
                           wp_order = length (waypoints s) + 1\<rparr>]
         \<and> map wp_order
             (waypoints (handleMapClick p3 (handleMapClick p2 (handleMapClick p1
                (s\<lparr>waypoints := []\<rparr>))))) = [1, 2, 3]
         \<and> take (length (waypoints s')) (waypoints (deliver te s')) = waypoints s'"
proof -
  have one: "waypoints (handleMapClick p s) =
      waypoints s @ [\<lparr>wp_id = clock s, wp_x = vx p, wp_y = vy p,
                      wp_order = length (waypoints s) + 1\<rparr>]"
    using assms by (simp add: handleMapClick_def)
  have three: "map wp_order
      (waypoints (handleMapClick p3 (handleMapClick p2 (handleMapClick p1
         (s\<lparr>waypoints := []\<rparr>))))) = [1, 2, 3]"
    using assms by (simp add: handleMapClick_def addLog_def)
  have kept: "take (length (waypoints s')) (waypoints (deliver te s')) = waypoints s'"
    using waypoints_handle [of "advance (fst te) s'" "snd te"] by (simp add: deliver_def)
  from one three kept show ?thesis by blast
qed

theorem waypoint_order_assignment_witness:
  "waypoints (handleMapClick \<lparr>vx = 10, vy = 20\<rparr>
      (initial\<lparr>mapData := Some grid4, currentMode := Waypoints\<rparr>)) =
     waypoints (initial\<lparr>mapData := Some grid4, currentMode := Waypoints\<rparr>) @
       [\<lparr>wp_id = 0, wp_x = 10, wp_y = 20, wp_order = 4\<rparr>]
   \<and> map wp_order
       (waypoints (handleMapClick \<lparr>vx = 3, vy = 3\<rparr> (handleMapClick \<lparr>vx = 2, vy = 2\<rparr>
          (handleMapClick \<lparr>vx = 1, vy = 1\<rparr>
            (initial\<lparr>mapData := Some grid4, currentMode := Waypoints, waypoints := []\<rparr>))))) =
     [1, 2, 3]"
  using waypoint_order_assignment
    [of "initial\<lparr>mapData := Some grid4, currentMode := Waypoints\<rparr>" grid4
        "\<lparr>vx = 10, vy = 20\<rparr>" "\<lparr>vx = 3, vy = 3\<rparr>" "\<lparr>vx = 2, vy = 2\<rparr>" "\<lparr>vx = 1, vy = 1\<rparr>"
        initial "(0, Stop)"]
  by (simp add: initial_def)

section \<open>Velocity commands\<close>

text \<open>
  C9: while the console is not connected nothing is published. \<open>publishCmdVel\<close> changes
  nothing when \<open>rosConnected\<close> is false or the \<open>/cmd_vel\<close> handle is absent; \<open>moveRobot\<close> then
  only logs the error asking to connect first; no event handled in such a state adds to the
  published messages, and no timer callback ever does.
\<close>

theorem no_publish_when_disconnected:
  assumes "\<not> rosConnected s \<or> cmdVelRef s = None"
  shows "publishCmdVel lin ang s = s
         \<and> published (stopRobot s) = published s
         \<and> (\<not> rosConnected s \<longrightarrow> moveRobot d s = addLog LogError MsgConnectFirst s)
         \<and> published (moveRobot d s) = published s
         \<and> published (handle e s) = published s
         \<and> published (advance t s') = published s'"
proof -
  have pub: "publishCmdVel lin ang s = s"
    using assms by (rule published_publishCmdVel)
  have stop: "published (stopRobot s) = published s"
    using published_handle [OF assms, of Stop] by simp
  have move: "published (moveRobot d s) = published s"
    using published_handle [OF assms, of "Move d"] by simp
  have rej: "\<not> rosConnected s \<longrightarrow> moveRobot d s = addLog LogError MsgConnectFirst s"
    by (simp add: moveRobot_def)
  from pub stop move rej published_handle [OF assms, of e] published_advance [of t s']
  show ?thesis by blast
qed

theorem no_publish_when_disconnected_witness:
  "publishCmdVel (2 / 10) 0 initial = initial
   \<and> moveRobot Forward initial = addLog LogError MsgConnectFirst initial
   \<and> published (handle (Move Forward) initial) = []"
proof -
  have h: "\<not> rosConnected initial \<or> cmdVelRef initial = None"
    by (simp add: initial_def)
  have "published initial = []"
    by (simp add: initial_def)
  moreover have "\<not> rosConnected initial"
    by (simp add: initial_def)
  ultimately show ?thesis
    using no_publish_when_disconnected [OF h, of "2 / 10" 0 Forward "Move Forward" 0 initial]
    by simp
qed

section \<open>Occupancy-grid messages\<close>

text \<open>
  C6: a grid message whose data is present and not empty replaces the held grid and
  schedules a render of that message (the \<open>drawMap\<close> of the handler's render, 100 ms later); a
  message whose data is empty or missing leaves the whole state as it was: no grid change, no
  render, no log entry, no error.
\<close>

theorem grid_message_handling:
  "(data message = Some d \<and> d \<noteq> [] \<longrightarrow>
      mapData (mapHandler r message s) = Some message
      \<and> timers (mapHandler r message s) =
          timers s @ [\<lparr>timer_id = nextTimerId s, timer_due = clock s + 100,
                       timer_action = DrawMap r message\<rparr>])
   \<and> (data message = Some [] \<or> data message = None \<longrightarrow> mapHandler r message s = s)"
  by (auto simp: mapHandler_def has_cells_def addLog_def setTimeout_def)

theorem grid_message_handling_witness:
  "mapData (mapHandler (renderOf initial) grid4 initial) = Some grid4
   \<and> timers (mapHandler (renderOf initial) grid4 initial) =
       [\<lparr>timer_id = 0, timer_due = 100, timer_action = DrawMap (renderOf initial) grid4\<rparr>]
   \<and> mapHandler (renderOf initial) emptyGrid initial = initial
   \<and> mapHandler (renderOf initial) missingGrid initial = initial"
proof -
  have a: "data grid4 = Some (replicate 16 0) \<and> replicate 16 (0::int) \<noteq> []"
    by (simp add: grid4_def)
  have b: "data emptyGrid = Some []" and c: "data missingGrid = None"
    by (simp_all add: emptyGrid_def missingGrid_def)
  have i: "timers initial = [] \<and> nextTimerId initial = 0 \<and> clock initial = 0"
    by (simp add: initial_def)
  show ?thesis
    using grid_message_handling [of grid4 "replicate 16 0" "renderOf initial" initial]
      grid_message_handling [of emptyGrid "[]" "renderOf initial" initial]
      grid_message_handling [of missingGrid "[]" "renderOf initial" initial] a b c i
    by simp
qed

section \<open>The renderer and the click\<close>

lemma grid4_fields:
  "width (info grid4) = 4 \<and> height (info grid4) = 4 \<and> resolution (info grid4) = 1
   \<and> origin (info grid4) = \<lparr>vx = 0, vy = 0\<rparr> \<and> has_cells grid4"
  by (simp add: grid4_def has_cells_def)

lemma navState_view:
  "viewGeometry (renderOf navState) (canvasClient navState) grid4 =
     \<lparr>displayWidth = 800, displayHeight = 400, finalScale = 80, offsetX = 240, offsetY = 40\<rparr>
   \<and> canvasSize navState = \<lparr>vx = 800, vy = 400\<rparr>
   \<and> mapData navState = Some grid4 \<and> currentMode navState = Navigation"
  by (simp add: navState_def paint_def renderOf_def viewGeometry_def grid4_fields initial_def
      Let_def)

text \<open>
  The inverse of the specification does undo the forward transform of \<open>drawMap\<close>, whatever
  the view, as long as the scale and the resolution are not zero.
\<close>

lemma specInverse_round_trip:
  assumes "finalScale (viewGeometry r client m) \<noteq> 0" and "resolution (info m) \<noteq> 0"
  shows "specInverse r client m (goalDisplay r client m w) = w"
  using assms
  by (simp add: specInverse_def goalDisplay_def mapToDisplay_def worldToMap_def Let_def)

text \<open>
  What the click handler computes from the pixel \<open>drawMap\<close> gives a world point: the view
  offset and scale stay in the result.
\<close>

lemma clickToWorld_of_forward:
  "clickToWorld s m (goalDisplay r client m w) =
     \<lparr>vx = (offsetX (viewGeometry r client m)
              + (vx w - vx (origin (info m))) / resolution (info m)
                * finalScale (viewGeometry r client m))
             * resolution (info m) + vx (origin (info m)),
      vy = (vy (canvasSize s)
              - (offsetY (viewGeometry r client m)
                 + (real (height (info m)) - (vy w - vy (origin (info m))) / resolution (info m))
                   * finalScale (viewGeometry r client m)))
             * resolution (info m) + vy (origin (info m))\<rparr>"
  by (simp add: clickToWorld_def goalDisplay_def mapToDisplay_def worldToMap_def)

text \<open>
  C1: the round trip fails on the code. With the 4 by 4 grid on an 800 by 400 canvas at zoom 1
  and pan \<open>(0, 0)\<close>, the \<open>drawMap\<close> of the current render puts the world point \<open>(2, 2)\<close> at pixel
  \<open>(400, 200)\<close>; a click on that pixel in navigation mode sets the goal to the world point
  \<open>(400, 200)\<close>, because the click handler multiplies the pixel by the resolution only and
  never uses the scale or the pixel origin of the view; the goal so set is drawn at pixel
  \<open>(32240, -15640)\<close>, far from the click. The inverse as the specification words it returns
  \<open>(2, 2)\<close>.
\<close>

theorem click_does_not_invert_drawMap:
  "goalDisplay (renderOf navState) (canvasClient navState) grid4 \<lparr>vx = 2, vy = 2\<rparr>
     = \<lparr>vx = 400, vy = 200\<rparr>
   \<and> clickToWorld navState grid4
       (goalDisplay (renderOf navState) (canvasClient navState) grid4 \<lparr>vx = 2, vy = 2\<rparr>)
       = \<lparr>vx = 400, vy = 200\<rparr>
   \<and> goalPose (handleMapClick \<lparr>vx = 400, vy = 200\<rparr> navState) = Some \<lparr>vx = 400, vy = 200\<rparr>
   \<and> goalDisplay (renderOf navState) (canvasClient navState) grid4 \<lparr>vx = 400, vy = 200\<rparr>
       = \<lparr>vx = 32240, vy = - 15640\<rparr>
   \<and> specInverse (renderOf navState) (canvasClient navState) grid4
       (goalDisplay (renderOf navState) (canvasClient navState) grid4 \<lparr>vx = 2, vy = 2\<rparr>)
       = \<lparr>vx = 2, vy = 2\<rparr>"
proof -
  have fwd: "goalDisplay (renderOf navState) (canvasClient navState) grid4 \<lparr>vx = 2, vy = 2\<rparr>
      = \<lparr>vx = 400, vy = 200\<rparr>"
    by (simp add: goalDisplay_def navState_view mapToDisplay_def worldToMap_def grid4_fields)
  have inv: "clickToWorld navState grid4 \<lparr>vx = 400, vy = 200\<rparr> = \<lparr>vx = 400, vy = 200\<rparr>"
    by (simp add: clickToWorld_def navState_view grid4_fields)
  have click: "goalPose (handleMapClick \<lparr>vx = 400, vy = 200\<rparr> navState) = Some \<lparr>vx = 400, vy = 200\<rparr>"
    by (simp add: handleMapClick_def navState_view inv addLog_def)
  have away: "goalDisplay (renderOf navState) (canvasClient navState) grid4 \<lparr>vx = 400, vy = 200\<rparr>
      = \<lparr>vx = 32240, vy = - 15640\<rparr>"
    by (simp add: goalDisplay_def navState_view mapToDisplay_def worldToMap_def grid4_fields)
  have spec: "specInverse (renderOf navState) (canvasClient navState) grid4 \<lparr>vx = 400, vy = 200\<rparr>
      = \<lparr>vx = 2, vy = 2\<rparr>"
    by (simp add: specInverse_def navState_view grid4_fields)
  show ?thesis
    unfolding fwd using inv click away spec by simp
qed

lemmas draw_defs =
  paint_def drawMap_def robotVisible_def robotDisplay_def robotArrow_def robotMap_def
  goalDisplay_def worldToMap_def mapToDisplay_def viewGeometry_def renderOf_def grid4_fields
  odomHandler_def mapHandler_def telemetry22_def atan2_def toFixed_def subscribers_def
  resetMapView_def redrawLater_def

text \<open>
  The draw a grid message schedules is the \<open>drawMap\<close> of the render that made the
  subscription, here the mount render: after the telemetry has put the robot at \<open>(2, 2)\<close>, it
  still paints the robot of the initial pose \<open>(0, 0)\<close>, at cell \<open>(0, 4)\<close>, pixel \<open>(240, 360)\<close>.
\<close>

lemma grid_message_draw_is_stale:
  "currentPose drawnByGridMessage = \<lparr>pose_x = 2, pose_y = 2, pose_theta = 0\<rparr>
   \<and> painted drawnByGridMessage =
       Some \<lparr>scene_robot = Some (\<lparr>vx = 240, vy = 360\<rparr>, \<lparr>vx = 260, vy = 360\<rparr>),
             scene_goal = None\<rparr>"
  unfolding drawnByGridMessage_def by (simp add: trace_defs draw_defs)

lemma redraw_shows_telemetry:
  "currentPose redrawnAfterTelemetry = \<lparr>pose_x = 2, pose_y = 2, pose_theta = 0\<rparr>
   \<and> painted redrawnAfterTelemetry =
       Some \<lparr>scene_robot = Some (\<lparr>vx = 400, vy = 200\<rparr>, \<lparr>vx = 420, vy = 200\<rparr>),
             scene_goal = None\<rparr>"
  unfolding redrawnAfterTelemetry_def by (simp add: trace_defs draw_defs)

text \<open>
  C5: the renderer maps the robot's world pose, as the render that made the \<open>drawMap\<close> shows
  it, to the grid cell \<open>gx = (wx - origin.x) / resolution\<close>, \<open>gy = gridHeight - (wy -
  origin.y) / resolution\<close> and that cell to the pixel \<open>offset + cell * finalScale\<close>. In the
  scenario (4 by 4 grid of resolution 1 and origin \<open>(0, 0)\<close>, telemetry position \<open>(2, 2)\<close> with
  \<open>z = 0\<close>, \<open>w = 1\<close>) the stored heading is 0 degrees and, for a draw by a render that shows
  the stored pose, the cell is \<open>(2, 2)\<close> and the heading ray runs from the marker along +X (its
  end is \<open>20 * zoom\<close> pixels to the right, at the same height): on the initial console after
  the telemetry the marker is at \<open>(400, 200)\<close> with its ray ending at \<open>(420, 200)\<close>, and this is
  the scene on the canvas of the mounted and connected console after the grid, the telemetry
  and a view reset, whose redraw comes from the render showing the telemetry.
\<close>

theorem robot_marker_placement:
  assumes "0 < resolution (info m)"
  shows "robotMap r m =
           \<lparr>vx = (pose_x (seen_currentPose r) - vx (origin (info m))) / resolution (info m),
            vy = real (height (info m))
                   - (pose_y (seen_currentPose r) - vy (origin (info m))) / resolution (info m)\<rparr>
         \<and> robotDisplay r client m =
             \<lparr>vx = offsetX (viewGeometry r client m)
                     + vx (robotMap r m) * finalScale (viewGeometry r client m),
              vy = offsetY (viewGeometry r client m)
                     + vy (robotMap r m) * finalScale (viewGeometry r client m)\<rparr>
         \<and> pose_theta (currentPose (odomHandler telemetry22 s)) = 0
         \<and> robotMap (renderOf (odomHandler telemetry22 s)) grid4 = \<lparr>vx = 2, vy = 2\<rparr>
         \<and> robotArrow (renderOf (odomHandler telemetry22 s)) client grid4 =
             \<lparr>vx = vx (robotDisplay (renderOf (odomHandler telemetry22 s)) client grid4)
                     + 20 * mapZoom s,
              vy = vy (robotDisplay (renderOf (odomHandler telemetry22 s)) client grid4)\<rparr>
         \<and> drawMap (renderOf (odomHandler telemetry22 initial)) (canvasClient initial) grid4 =
             Some \<lparr>scene_robot = Some (\<lparr>vx = 400, vy = 200\<rparr>, \<lparr>vx = 420, vy = 200\<rparr>),
                   scene_goal = None\<rparr>
         \<and> currentPose redrawnAfterTelemetry = \<lparr>pose_x = 2, pose_y = 2, pose_theta = 0\<rparr>
         \<and> painted redrawnAfterTelemetry =
             Some \<lparr>scene_robot = Some (\<lparr>vx = 400, vy = 200\<rparr>, \<lparr>vx = 420, vy = 200\<rparr>),
                   scene_goal = None\<rparr>"
proof -
  have cell: "robotMap r m =
      \<lparr>vx = (pose_x (seen_currentPose r) - vx (origin (info m))) / resolution (info m),
       vy = real (height (info m))
              - (pose_y (seen_currentPose r) - vy (origin (info m))) / resolution (info m)\<rparr>"
    by (simp add: robotMap_def worldToMap_def)
  have pixel: "robotDisplay r client m =
      \<lparr>vx = offsetX (viewGeometry r client m)
              + vx (robotMap r m) * finalScale (viewGeometry r client m),
       vy = offsetY (viewGeometry r client m)
              + vy (robotMap r m) * finalScale (viewGeometry r client m)\<rparr>"
    by (simp add: robotDisplay_def mapToDisplay_def)
  have stored: "currentPose (odomHandler telemetry22 t) = \<lparr>pose_x = 2, pose_y = 2, pose_theta = 0\<rparr>"
    for t by (simp add: odomHandler_def telemetry22_def atan2_unit toFixed_def)
  have seen: "seen_currentPose (renderOf (odomHandler telemetry22 t)) =
        \<lparr>pose_x = 2, pose_y = 2, pose_theta = 0\<rparr>
      \<and> seen_mapZoom (renderOf (odomHandler telemetry22 t)) = mapZoom t"
    for t by (simp add: renderOf_def stored)
  have theta: "pose_theta (currentPose (odomHandler telemetry22 s)) = 0"
    by (simp add: stored)
  have cell22: "robotMap (renderOf (odomHandler telemetry22 t)) grid4 = \<lparr>vx = 2, vy = 2\<rparr>"
    for t by (simp add: robotMap_def worldToMap_def seen grid4_fields)
  have ray: "robotArrow (renderOf (odomHandler telemetry22 t)) c grid4 =
      \<lparr>vx = vx (robotDisplay (renderOf (odomHandler telemetry22 t)) c grid4) + 20 * mapZoom t,
       vy = vy (robotDisplay (renderOf (odomHandler telemetry22 t)) c grid4)\<rparr>"
    for t c by (simp add: robotArrow_def seen Let_def)
  have geo: "viewGeometry (renderOf (odomHandler telemetry22 initial)) (canvasClient initial) grid4 =
      \<lparr>displayWidth = 800, displayHeight = 400, finalScale = 80, offsetX = 240, offsetY = 40\<rparr>"
    by (simp add: viewGeometry_def renderOf_def odomHandler_def grid4_fields initial_def Let_def)
  have at: "robotDisplay (renderOf (odomHandler telemetry22 initial)) (canvasClient initial) grid4
      = \<lparr>vx = 400, vy = 200\<rparr>"
    by (simp add: robotDisplay_def mapToDisplay_def cell22 geo)
  have arrow: "robotArrow (renderOf (odomHandler telemetry22 initial)) (canvasClient initial) grid4
      = \<lparr>vx = 420, vy = 200\<rparr>"
    unfolding ray at by (simp add: initial_def)
  have goal: "seen_goalPose (renderOf (odomHandler telemetry22 initial)) = None"
    by (simp add: renderOf_def odomHandler_def initial_def Let_def)
  have scene: "drawMap (renderOf (odomHandler telemetry22 initial)) (canvasClient initial) grid4 =
      Some \<lparr>scene_robot = Some (\<lparr>vx = 400, vy = 200\<rparr>, \<lparr>vx = 420, vy = 200\<rparr>), scene_goal = None\<rparr>"
    by (simp add: drawMap_def robotVisible_def at arrow geo goal grid4_fields)
  from cell pixel theta cell22 [of s] ray [of s client] scene redraw_shows_telemetry
  show ?thesis by blast
qed

theorem robot_marker_placement_witness:
  "robotMap (renderOf (odomHandler telemetry22 initial)) grid4 = \<lparr>vx = 2, vy = 2\<rparr>
   \<and> pose_theta (currentPose (odomHandler telemetry22 initial)) = 0
   \<and> drawMap (renderOf (odomHandler telemetry22 initial)) (canvasClient initial) grid4 =
       Some \<lparr>scene_robot = Some (\<lparr>vx = 400, vy = 200\<rparr>, \<lparr>vx = 420, vy = 200\<rparr>), scene_goal = None\<rparr>
   \<and> painted redrawnAfterTelemetry =
       Some \<lparr>scene_robot = Some (\<lparr>vx = 400, vy = 200\<rparr>, \<lparr>vx = 420, vy = 200\<rparr>), scene_goal = None\<rparr>"
proof -
  have h: "0 < resolution (info grid4)"
    by (simp add: grid4_def)
  show ?thesis
    using robot_marker_placement [OF h, of "renderOf initial" "canvasClient initial" initial]
    by simp
qed

section \<open>Telemetry\<close>

text \<open>
  C4, as the code has it: the handler computes \<open>theta = 2 * atan2(z, w)\<close>, converts it to
  degrees and stores that value rounded to one decimal (\<open>toFixed(1)\<close>), so the stored heading
  is within 0.05 degrees of the computed one; the angle is not wrapped into any range: the
  orientation \<open>z = 1\<close>, \<open>w = -1\<close> is stored as 270 degrees.
\<close>

theorem heading_stored_rounded:
  "pose_theta (currentPose (odomHandler message s)) =
     toFixed 1 (2 * atan2 (orientation_z message) (orientation_w message) * 180 / pi)
   \<and> \<bar>pose_theta (currentPose (odomHandler message s))
        - 2 * atan2 (orientation_z message) (orientation_w message) * 180 / pi\<bar> \<le> 1 / 20
   \<and> pose_theta (currentPose
        (odomHandler (message\<lparr>orientation_z := 1, orientation_w := - 1\<rparr>) s)) = 270"
proof -
  have stored: "pose_theta (currentPose (odomHandler message s)) =
      toFixed 1 (2 * atan2 (orientation_z message) (orientation_w message) * 180 / pi)"
    by (simp add: odomHandler_def Let_def)
  have near: "\<bar>toFixed 1 (2 * atan2 (orientation_z message) (orientation_w message) * 180 / pi)
      - 2 * atan2 (orientation_z message) (orientation_w message) * 180 / pi\<bar> \<le> 1 / 20"
    using toFixed_error [of 1 "2 * atan2 (orientation_z message) (orientation_w message) * 180 / pi"]
    by simp
  have wide: "pose_theta (currentPose
      (odomHandler (message\<lparr>orientation_z := 1, orientation_w := - 1\<rparr>) s)) = 270"
    by (simp add: odomHandler_def Let_def atan2_second_quadrant toFixed_def)
  show ?thesis
    unfolding stored using near wide stored by simp
qed

text \<open>
  C4 as stated fails: for a heading of 11.25 degrees the value computed is 11.25 and the
  value stored is 11.3.
\<close>

theorem heading_not_stored_as_computed:
  "2 * atan2 (orientation_z telemetryYaw) (orientation_w telemetryYaw) * 180 / pi = 45 / 4
   \<and> pose_theta (currentPose (odomHandler telemetryYaw initial)) = 113 / 10
   \<and> pose_theta (currentPose (odomHandler telemetryYaw initial))
       \<noteq> 2 * atan2 (orientation_z telemetryYaw) (orientation_w telemetryYaw) * 180 / pi"
proof -
  have computed: "2 * atan2 (orientation_z telemetryYaw) (orientation_w telemetryYaw) * 180 / pi
      = 45 / 4"
    by (simp add: telemetryYaw_def atan2_yaw)
  have "pose_theta (currentPose (odomHandler telemetryYaw initial)) =
      toFixed 1 (2 * atan2 (orientation_z telemetryYaw) (orientation_w telemetryYaw) * 180 / pi)"
    by (simp add: odomHandler_def Let_def)
  also have "\<dots> = 113 / 10"
    unfolding computed by (simp add: toFixed_def)
  finally have stored: "pose_theta (currentPose (odomHandler telemetryYaw initial)) = 113 / 10" .
  show ?thesis
    unfolding computed stored by simp
qed


section \<open>The connection lifecycle\<close>

text \<open>
  When the bridge answers only after the 5 s check, the operator's connect sets the topics up
  once; so does the mount path, which has no such check.
\<close>

lemma late_connect_sets_up_once:
  "rosConnected lateConnect \<and> robotStatus lateConnect = StConnected \<and> setupCount lateConnect = 1
   \<and> timers lateConnect = []"
  unfolding lateConnect_def by (simp add: trace_defs)

lemma boot_connect_sets_up_once:
  "rosConnected bootConnect \<and> robotStatus bootConnect = StConnected \<and> setupCount bootConnect = 1
   \<and> timers bootConnect = []"
  unfolding bootConnect_def by (simp add: trace_defs)

text \<open>
  C2: from the initial state the operator connects (\<open>initROS\<close>), the test socket opens and
  one \<open>connection\<close> event arrives 100 ms later, well before the 15 s timeout. The console ends
  connected, but \<open>setupRosTopics\<close> has run twice: once 500 ms after the event, and once more
  from the 5 s check of \<open>isConnected\<close>, so \<open>/odom\<close> and \<open>/map\<close> are each subscribed twice.
\<close>

theorem early_connect_sets_up_twice:
  "rosConnected earlyConnect \<and> robotStatus earlyConnect = StConnected
   \<and> timers earlyConnect = []
   \<and> setupCount earlyConnect = 2
   \<and> subscriptions earlyConnect =
       [\<lparr>topic_name = Odom, topic_ros = 0\<rparr>, \<lparr>topic_name = MapTopic, topic_ros = 0\<rparr>,
        \<lparr>topic_name = Odom, topic_ros = 0\<rparr>, \<lparr>topic_name = MapTopic, topic_ros = 0\<rparr>]"
  unfolding earlyConnect_def by (simp add: trace_defs)

text \<open>
  C3, as the code has it: a \<open>connection\<close> event on an existing instance, whatever the state
  and so also a duplicate while connected, sets the connected flag and status, clears the
  instance's timeout and schedules one more \<open>setupRosTopics\<close> (1000 ms later on the mount path,
  500 ms on the operator's); and every \<open>setupRosTopics\<close> subscribes to \<open>/odom\<close> and \<open>/map\<close>
  again, counts as one more setup and puts fresh topic handles in the three refs.
\<close>

theorem connection_event_schedules_setup:
  assumes "i < length (instances s)"
  shows "rosConnected (handle (RosConnection i) s)
         \<and> robotStatus (handle (RosConnection i) s) = StConnected
         \<and> timers (handle (RosConnection i) s) =
             filter (\<lambda>t. timer_id t \<noteq> timeoutId (instances s ! i)) (timers s) @
             [\<lparr>timer_id = nextTimerId s,
               timer_due = clock s + (case via (instances s ! i) of Boot \<Rightarrow> 1000 | Manual \<Rightarrow> 500),
               timer_action = SetupTopics i\<rparr>]
         \<and> subscriptions (runTimer (SetupTopics i) s') =
             subscriptions s' @
             [\<lparr>topic_name = Odom, topic_ros = i\<rparr>, \<lparr>topic_name = MapTopic, topic_ros = i\<rparr>]
         \<and> setupCount (runTimer (SetupTopics i) s') = setupCount s' + 1
         \<and> cmdVelRef (runTimer (SetupTopics i) s') = Some \<lparr>topic_name = CmdVel, topic_ros = i\<rparr>
         \<and> odomSubRef (runTimer (SetupTopics i) s') = Some \<lparr>topic_name = Odom, topic_ros = i\<rparr>
         \<and> mapSubRef (runTimer (SetupTopics i) s') = Some \<lparr>topic_name = MapTopic, topic_ros = i\<rparr>"
  using assms
  by (simp add: onConnection_def setInstConnected_def addLog_def setTimeout_def clearTimeout_def
      setupRosTopics_def setupCount_def Let_def)

theorem connection_event_schedules_setup_witness:
  "rosConnected (handle (RosConnection 0) (handle (Mount True) initial))
   \<and> robotStatus (handle (RosConnection 0) (handle (Mount True) initial)) = StConnected
   \<and> timers (handle (RosConnection 0) (handle (Mount True) initial)) =
       [\<lparr>timer_id = 1, timer_due = 1000, timer_action = SetupTopics 0\<rparr>]"
proof -
  have m: "instances (handle (Mount True) initial) =
             [\<lparr>isConnected = False, via = Boot, timeoutId = 0, closure = renderOf initial\<rparr>]
           \<and> timers (handle (Mount True) initial) =
             [\<lparr>timer_id = 0, timer_due = 10000, timer_action = BootTimeout\<rparr>]
           \<and> nextTimerId (handle (Mount True) initial) = 1
           \<and> clock (handle (Mount True) initial) = 0"
    by (simp add: trace_defs renderOf_def)
  then have h: "0 < length (instances (handle (Mount True) initial))"
    by simp
  show ?thesis
    using connection_event_schedules_setup [OF h, of initial] m by simp
qed

text \<open>
  C3 as stated fails: on the mount path a second \<open>connection\<close> event, delivered while the
  console is connected, leads to a second setup and to two subscriptions to each topic, where
  one event leads to one.
\<close>

theorem duplicate_connection_sets_up_again:
  "rosConnected (run [(0, Mount True), (100, RosConnection 0)] initial)
   \<and> setupCount bootConnect = 1
   \<and> setupCount bootConnectTwice = 2
   \<and> subscriptions bootConnectTwice =
       [\<lparr>topic_name = Odom, topic_ros = 0\<rparr>, \<lparr>topic_name = MapTopic, topic_ros = 0\<rparr>,
        \<lparr>topic_name = Odom, topic_ros = 0\<rparr>, \<lparr>topic_name = MapTopic, topic_ros = 0\<rparr>]
   \<and> subscriptions bootConnectTwice \<noteq> subscriptions bootConnect"
proof -
  have one: "rosConnected (run [(0, Mount True), (100, RosConnection 0)] initial)"
    by (simp add: trace_defs)
  have single: "setupCount bootConnect = 1
      \<and> subscriptions bootConnect =
          [\<lparr>topic_name = Odom, topic_ros = 0\<rparr>, \<lparr>topic_name = MapTopic, topic_ros = 0\<rparr>]"
    unfolding bootConnect_def by (simp add: trace_defs)
  have twice: "setupCount bootConnectTwice = 2
      \<and> subscriptions bootConnectTwice =
          [\<lparr>topic_name = Odom, topic_ros = 0\<rparr>, \<lparr>topic_name = MapTopic, topic_ros = 0\<rparr>,
           \<lparr>topic_name = Odom, topic_ros = 0\<rparr>, \<lparr>topic_name = MapTopic, topic_ros = 0\<rparr>]"
    unfolding bootConnectTwice_def by (simp add: trace_defs)
  from one single twice show ?thesis by simp
qed

end
